theory Spec2Isabelle
  imports Main "HOL-Library.Sublist"
begin

section \<open>Data model of the application controller (src/app/dry.go)\<close>

text \<open>
  The controller is modelled sequentially: one handler runs at a time, so the
  reader/writer lock embedded in the state struct is not represented. Every handler takes
  the controller record and returns the updated one.
\<close>

subsection \<open>View modes and sort modes\<close>

text \<open>
  Modelled from the spec: the declaration of the type viewMode and of its constants is not
  in dry.go. The spec calls it an enumerated tag; the constructors below are exactly the
  constants that dry.go passes to changeViewMode.
\<close>

datatype viewMode =
    Main | Images | Networks | Nodes | Services | ServiceTasks | Tasks
  | DiskUsage | EventsMode | HelpMode | ImageHistoryMode | InfoMode
  | InspectImageMode | InspectNetworkMode | Monitor

text \<open>
  Modelled from the spec: the method isMainScreen of viewMode is declared with the type,
  outside dry.go. The spec's data model names the main screens (container list, image list,
  network list) and so does the comment above ShowMainView; ShowContainers, ShowImages and
  ShowNetworks show that these are Main, Images and Networks.
\<close>

definition isMainScreen :: "viewMode \<Rightarrow> bool" where
  "isMainScreen v = (v = Main \<or> v = Images \<or> v = Networks)"

text \<open>
  Modelled from the spec: drydocker.SortMode is declared in package docker. SortNetworks
  switches over three of its constants, which are therefore pairwise distinct;
  \<open>OtherSortMode n\<close> stands for every other value the type can hold (the switch's
  default case).
\<close>

datatype SortMode =
    SortNetworksByID | SortNetworksByName | SortNetworksByDriver | OtherSortMode nat

subsection \<open>Values returned by the daemon\<close>

text \<open>
  A Go error value: \<open>None\<close> is nil, \<open>Some msg\<close> is an error whose Error() is msg.
\<close>

type_synonym error = "string option"

text \<open>
  The records of the docker API are declared in packages outside src/. The controller
  stores them whole and reads only the ID of the records it looks up by position, so each
  is a record with its ID and one or two more of its fields. A pointer to a record is an
  option: \<open>None\<close> is the nil pointer.
\<close>

record ImageSummary =
  ID :: string
  Size :: int

record HistoryResponseItem =
  ID :: string
  CreatedBy :: string

record ImageInspect =
  ID :: string
  Comment :: string

record NetworkResource =
  ID :: string
  Name :: string
  Driver :: string

record Info =
  ID :: string
  Containers :: int

record PruneReport =
  TotalSpaceReclaimed :: nat

text \<open>
  The daemon (drydocker.ContainerDaemon) is an external collaborator whose answers may
  differ from one call to the next. Each handler therefore takes, as its first argument,
  the daemon as it answers during that call: one function per method that dry.go calls and
  whose result it uses. A Go method returning (value, error) returns the pair; both
  components are present whatever the error is. The interface is declared in package
  docker, outside dry.go. NetworkAt returns a pointer: Dry.NetworkAt (dry.go:146) passes its
  result on as *types.NetworkResource. ImageAt is used in the same way (dry.go:69, 89) and
  is taken to return a pointer to the image summary as well; Prune returns the pointer
  that PruneReport (dry.go:173) hands back.
\<close>

record ContainerDaemon =
  Events :: error
  ImageAt :: "int \<Rightarrow> ImageSummary option \<times> error"
  History :: "string \<Rightarrow> HistoryResponseItem list \<times> error"
  InspectImage :: "string \<Rightarrow> ImageInspect \<times> error"
  NetworkAt :: "int \<Rightarrow> NetworkResource option \<times> error"
  NetworkInspect :: "string \<Rightarrow> NetworkResource \<times> error"
  Info :: "Info \<times> error"
  Networks :: "NetworkResource list \<times> error"
  Prune :: "PruneReport option \<times> error"

subsection \<open>The result cache (github.com/patrickmn/go-cache)\<close>

text \<open>
  dry.go keeps a go-cache Cache (import at line 15, cache.New at line 393) and calls its
  methods Add (line 164) and Get (line 174). The library is not part of the repository; the
  definitions below follow the library's code for New, set, get, Add, Get and DeleteExpired.
  Times are nanoseconds since the epoch (UnixNano) and durations are nanoseconds, both as
  unbounded integers. The current time is an argument of every operation that reads the
  clock. The only value ever stored by dry.go is the *PruneReport returned by the daemon,
  so the cached object has that type and the type assertion in PruneReport cannot fail.
\<close>

definition Second :: int where
  "Second = 1000000000"

definition Minute :: int where
  "Minute = 60 * Second"

definition DefaultExpiration :: int where
  "DefaultExpiration = 0"

record Item =
  Object :: "PruneReport option"
  Expiration :: int

record Cache =
  defaultExpiration :: int
  items :: "string \<rightharpoonup> Item"

definition cache_New :: "int \<Rightarrow> int \<Rightarrow> Cache" where
  "cache_New de cleanupInterval =
     \<lparr>defaultExpiration = (if de = 0 then - 1 else de), items = Map.empty\<rparr>"

definition cache_set :: "Cache \<Rightarrow> int \<Rightarrow> string \<Rightarrow> PruneReport option \<Rightarrow> int \<Rightarrow> Cache" where
  "cache_set c now k x d =
     (let d1 = (if d = DefaultExpiration then defaultExpiration c else d);
          e = (if d1 > 0 then now + d1 else 0)
      in c\<lparr>items := (items c)(k \<mapsto> \<lparr>Object = x, Expiration = e\<rparr>)\<rparr>)"

definition cache_get :: "Cache \<Rightarrow> int \<Rightarrow> string \<Rightarrow> PruneReport option \<times> bool" where
  "cache_get c now k =
     (case items c k of
        None \<Rightarrow> (None, False)
      | Some item \<Rightarrow>
          if Expiration item > 0 \<and> now > Expiration item then (None, False)
          else (Object item, True))"

text \<open>
  Add stores only when the key has no unexpired entry; otherwise it returns an error and
  leaves the cache as it is.
\<close>

definition cache_Add ::
  "Cache \<Rightarrow> int \<Rightarrow> string \<Rightarrow> PruneReport option \<Rightarrow> int \<Rightarrow> Cache \<times> error" where
  "cache_Add c now k x d =
     (if snd (cache_get c now k) then (c, Some (''Item '' @ k @ '' already exists''))
      else (cache_set c now k x d, None))"

definition cache_Get :: "Cache \<Rightarrow> int \<Rightarrow> string \<Rightarrow> PruneReport option \<times> bool" where
  "cache_Get c now k = cache_get c now k"

text \<open>
  The cache's janitor calls DeleteExpired every cleanup interval, from its own goroutine.
\<close>

definition cache_DeleteExpired :: "Cache \<Rightarrow> int \<Rightarrow> Cache" where
  "cache_DeleteExpired c now =
     c\<lparr>items := (\<lambda>k. case items c k of
                        None \<Rightarrow> None
                      | Some item \<Rightarrow>
                          if Expiration item > 0 \<and> now > Expiration item then None
                          else Some item)\<rparr>"

text \<open>
  Modelled from the spec: the constant pruneReport, the cache key of the prune report, is
  declared outside dry.go; the spec gives the key as "prune-report".
\<close>

definition pruneReport :: string where
  "pruneReport = ''prune-report''"

subsection \<open>Controller state\<close>

record state =
  previousViewMode :: viewMode
  viewMode :: viewMode
  sortNetworksMode :: SortMode

text \<open>
  Calls that leave the controller: the package function refreshScreen, the daemon's
  SortNetworks directive and the widgets' PrepareToRender. They are logged in call order.
\<close>

datatype effect =
    RefreshScreen
  | DaemonSortNetworks SortMode
  | PrepareServiceTasks string
  | PrepareNodeTasks string

text \<open>
  The Dry struct. The field \<open>output\<close> is the channel of user messages: the list holds, in
  call order, every message handed to appmessage, which starts a goroutine that attempts
  one non-blocking send. Whether a consumer receives the message is outside the model.
  The daemon is an argument of the handlers (see above); the widget registry and the event
  channels are not represented.
\<close>

record Dry =
  imageHistory :: "HistoryResponseItem list"
  info :: Info
  inspectedImage :: ImageInspect
  inspectedNetwork :: NetworkResource
  networks :: "NetworkResource list"
  "output" :: "string list"
  state :: state
  cache :: Cache
  effects :: "effect list"

text \<open>A nil pointer dereference stops the handler with a run-time panic.\<close>

datatype panic = NilPointerDereference

section \<open>Operations of the controller\<close>

definition refreshScreen :: "Dry \<Rightarrow> Dry" where
  "refreshScreen d = d\<lparr>effects := effects d @ [RefreshScreen]\<rparr>"

definition SetViewMode :: "Dry \<Rightarrow> viewMode \<Rightarrow> Dry" where
  "SetViewMode d newViewMode =
     (let s = state d;
          s1 = (if isMainScreen newViewMode then s\<lparr>previousViewMode := newViewMode\<rparr> else s)
      in d\<lparr>state := s1\<lparr>viewMode := newViewMode\<rparr>\<rparr>)"

definition changeViewMode :: "Dry \<Rightarrow> viewMode \<Rightarrow> Dry" where
  "changeViewMode d newViewMode = refreshScreen (SetViewMode d newViewMode)"

definition appmessage :: "Dry \<Rightarrow> string \<Rightarrow> Dry" where
  "appmessage d message = d\<lparr>output := output d @ [message]\<rparr>"

text \<open>
  errorMessage formats its first argument with the verb %v; every caller modelled here
  passes a string, which %v prints as it is.
\<close>

definition errorMessage :: "Dry \<Rightarrow> string \<Rightarrow> string \<Rightarrow> string \<Rightarrow> Dry" where
  "errorMessage d cid action err =
     appmessage d (''<red>Error '' @ action @ '' container </><white>'' @ cid @ ''. ''
                   @ err @ ''</>'')"

definition History :: "ContainerDaemon \<Rightarrow> Dry \<Rightarrow> string \<Rightarrow> Dry" where
  "History gw d id' =
     (case ContainerDaemon.History gw id' of
        (history, None) \<Rightarrow> (changeViewMode d ImageHistoryMode)\<lparr>imageHistory := history\<rparr>
      | (history, Some err) \<Rightarrow>
          appmessage d (''<red>Error getting history of image </><white>'' @ id' @ '': ''
                        @ err @ ''</>''))"

definition HistoryAt :: "ContainerDaemon \<Rightarrow> Dry \<Rightarrow> int \<Rightarrow> panic + Dry" where
  "HistoryAt gw d position =
     (case ContainerDaemon.ImageAt gw position of
        (apiImage, None) \<Rightarrow>
          (case apiImage of
             None \<Rightarrow> Inl NilPointerDereference
           | Some img \<Rightarrow> Inr (History gw d (ImageSummary.ID img)))
      | (apiImage, Some err) \<Rightarrow>
          Inr (appmessage d (''<red>Error getting history of image </><white>: '' @ err
                             @ ''</>'')))"

definition InspectImage :: "ContainerDaemon \<Rightarrow> Dry \<Rightarrow> string \<Rightarrow> Dry" where
  "InspectImage gw d id' =
     (case ContainerDaemon.InspectImage gw id' of
        (image', None) \<Rightarrow> (changeViewMode d InspectImageMode)\<lparr>inspectedImage := image'\<rparr>
      | (image', Some err) \<Rightarrow> errorMessage d id' ''inspecting image'' err)"

definition InspectImageAt :: "ContainerDaemon \<Rightarrow> Dry \<Rightarrow> int \<Rightarrow> panic + Dry" where
  "InspectImageAt gw d position =
     (case ContainerDaemon.ImageAt gw position of
        (apiImage, None) \<Rightarrow>
          (case apiImage of
             None \<Rightarrow> Inl NilPointerDereference
           | Some img \<Rightarrow> Inr (InspectImage gw d (ImageSummary.ID img)))
      | (apiImage, Some err) \<Rightarrow>
          (case apiImage of
             None \<Rightarrow> Inl NilPointerDereference
           | Some img \<Rightarrow> Inr (errorMessage d (ImageSummary.ID img) ''inspecting image'' err)))"

definition InspectNetwork :: "ContainerDaemon \<Rightarrow> Dry \<Rightarrow> string \<Rightarrow> Dry" where
  "InspectNetwork gw d id' =
     (case ContainerDaemon.NetworkInspect gw id' of
        (network, None) \<Rightarrow> (changeViewMode d InspectNetworkMode)\<lparr>inspectedNetwork := network\<rparr>
      | (network, Some err) \<Rightarrow>
          errorMessage d (NetworkResource.ID network) ''inspecting network'' err)"

definition InspectNetworkAt :: "ContainerDaemon \<Rightarrow> Dry \<Rightarrow> int \<Rightarrow> panic + Dry" where
  "InspectNetworkAt gw d position =
     (case ContainerDaemon.NetworkAt gw position of
        (network, None) \<Rightarrow>
          (case network of
             None \<Rightarrow> Inl NilPointerDereference
           | Some n \<Rightarrow> Inr (InspectNetwork gw d (NetworkResource.ID n)))
      | (network, Some err) \<Rightarrow>
          (case network of
             None \<Rightarrow> Inl NilPointerDereference
           | Some n \<Rightarrow> Inr (errorMessage d (NetworkResource.ID n) ''inspecting network'' err)))"

definition Prune :: "ContainerDaemon \<Rightarrow> int \<Rightarrow> Dry \<Rightarrow> Dry" where
  "Prune gw now d =
     (case ContainerDaemon.Prune gw of
        (pr, None) \<Rightarrow> d\<lparr>cache := fst (cache_Add (cache d) now pruneReport pr (30 * Second))\<rparr>
      | (pr, Some err) \<Rightarrow> appmessage d (''<red>Error running prune. '' @ err @ ''</>''))"

definition PruneReport :: "int \<Rightarrow> Dry \<Rightarrow> PruneReport option" where
  "PruneReport now d =
     (case cache_Get (cache d) now pruneReport of
        (pr, True) \<Rightarrow> pr
      | (pr, False) \<Rightarrow> None)"

definition ShowMainView :: "Dry \<Rightarrow> Dry" where
  "ShowMainView d = changeViewMode d (previousViewMode (state d))"

definition ShowContainers :: "Dry \<Rightarrow> Dry" where
  "ShowContainers d = changeViewMode d Main"

definition ShowDiskUsage :: "Dry \<Rightarrow> Dry" where
  "ShowDiskUsage d = changeViewMode d DiskUsage"

definition ShowDockerEvents :: "Dry \<Rightarrow> Dry" where
  "ShowDockerEvents d = changeViewMode d EventsMode"

definition ShowHelp :: "Dry \<Rightarrow> Dry" where
  "ShowHelp d = changeViewMode d HelpMode"

definition ShowImages :: "Dry \<Rightarrow> Dry" where
  "ShowImages d = changeViewMode d Images"

text \<open>ShowInfo is the one handler that returns the daemon's error to its caller.\<close>

definition ShowInfo :: "ContainerDaemon \<Rightarrow> Dry \<Rightarrow> Dry \<times> error" where
  "ShowInfo gw d =
     (case ContainerDaemon.Info gw of
        (info', None) \<Rightarrow> ((changeViewMode d InfoMode)\<lparr>info := info'\<rparr>, None)
      | (info', Some err) \<Rightarrow> (d, Some err))"

definition ShowMonitor :: "Dry \<Rightarrow> Dry" where
  "ShowMonitor d = changeViewMode d Monitor"

definition ShowNetworks :: "ContainerDaemon \<Rightarrow> Dry \<Rightarrow> Dry" where
  "ShowNetworks gw d =
     (case ContainerDaemon.Networks gw of
        (networks', None) \<Rightarrow> (changeViewMode d viewMode.Networks)\<lparr>networks := networks'\<rparr>
      | (networks', Some err) \<Rightarrow>
          appmessage d (''Could not retrieve network list: '' @ err @ '' ''))"

definition ShowNodes :: "Dry \<Rightarrow> Dry" where
  "ShowNodes d = changeViewMode d Nodes"

definition ShowServices :: "Dry \<Rightarrow> Dry" where
  "ShowServices d = changeViewMode d Services"

definition ShowServiceTasks :: "Dry \<Rightarrow> string \<Rightarrow> Dry" where
  "ShowServiceTasks d serviceID =
     changeViewMode (d\<lparr>effects := effects d @ [PrepareServiceTasks serviceID]\<rparr>) ServiceTasks"

definition ShowTasks :: "Dry \<Rightarrow> string \<Rightarrow> Dry" where
  "ShowTasks d nodeID =
     changeViewMode (d\<lparr>effects := effects d @ [PrepareNodeTasks nodeID]\<rparr>) Tasks"

definition SortNetworks :: "Dry \<Rightarrow> Dry" where
  "SortNetworks d =
     (let s = state d;
          s1 = (case sortNetworksMode s of
                  SortNetworksByID \<Rightarrow> s\<lparr>sortNetworksMode := SortNetworksByName\<rparr>
                | SortNetworksByName \<Rightarrow> s\<lparr>sortNetworksMode := SortNetworksByDriver\<rparr>
                | SortNetworksByDriver \<Rightarrow> s\<lparr>sortNetworksMode := SortNetworksByID\<rparr>
                | OtherSortMode n \<Rightarrow> s)
      in refreshScreen
           (d\<lparr>state := s1,
              effects := effects d @ [DaemonSortNetworks (sortNetworksMode s1)]\<rparr>))"

text \<open>The method viewMode of Dry (dry.go:385), which reads the active view mode.\<close>

definition Dry_viewMode :: "Dry \<Rightarrow> viewMode" where
  "Dry_viewMode d = viewMode (state d)"

text \<open>
  newDry: when the subscription to the daemon's events fails, no controller is built and
  the error is returned. Otherwise the state starts on the container list, the zero Dry
  struct is filled in and the daemon is told the initial sort mode.
\<close>

definition newDry :: "ContainerDaemon \<Rightarrow> string + Dry" where
  "newDry daemon =
     (case ContainerDaemon.Events daemon of
        None \<Rightarrow>
          Inr \<lparr>imageHistory = [],
               info = \<lparr>Info.ID = '''', Containers = 0\<rparr>,
               inspectedImage = \<lparr>ImageInspect.ID = '''', Comment = ''''\<rparr>,
               inspectedNetwork = \<lparr>NetworkResource.ID = '''', Name = '''', Driver = ''''\<rparr>,
               networks = [],
               output = [],
               state = \<lparr>previousViewMode = Main, viewMode = Main,
                        sortNetworksMode = SortNetworksByID\<rparr>,
               cache = cache_New (5 * Minute) (30 * Second),
               effects = [DaemonSortNetworks SortNetworksByID]\<rparr>
      | Some err \<Rightarrow> Inl err)"

section \<open>Sequences of calls\<close>

text \<open>
  The callers of the controller (the event loop of the terminal UI) invoke one exported
  method after another; between two calls the daemon may answer differently and time
  passes. A call is therefore a method with its arguments, paired with the daemon as it
  answers during the call and the clock reading at the call. JanitorRun is one run of the
  cache's clean-up goroutine, which cache.New starts.
\<close>

datatype command =
    CallSetViewMode viewMode
  | CallHistoryAt int
  | CallHistory string
  | CallInspectImageAt int
  | CallInspectImage string
  | CallInspectNetworkAt int
  | CallInspectNetwork string
  | CallPrune
  | CallShowMainView
  | CallShowContainers
  | CallShowDiskUsage
  | CallShowDockerEvents
  | CallShowHelp
  | CallShowImages
  | CallShowInfo
  | CallShowMonitor
  | CallShowNetworks
  | CallShowNodes
  | CallShowServices
  | CallShowServiceTasks string
  | CallShowTasks string
  | CallSortNetworks
  | JanitorRun

fun call :: "ContainerDaemon \<Rightarrow> int \<Rightarrow> command \<Rightarrow> Dry \<Rightarrow> panic + Dry" where
  "call gw now (CallSetViewMode m) d = Inr (SetViewMode d m)"
| "call gw now (CallHistoryAt position) d = HistoryAt gw d position"
| "call gw now (CallHistory id') d = Inr (History gw d id')"
| "call gw now (CallInspectImageAt position) d = InspectImageAt gw d position"
| "call gw now (CallInspectImage id') d = Inr (InspectImage gw d id')"
| "call gw now (CallInspectNetworkAt position) d = InspectNetworkAt gw d position"
| "call gw now (CallInspectNetwork id') d = Inr (InspectNetwork gw d id')"
| "call gw now CallPrune d = Inr (Prune gw now d)"
| "call gw now CallShowMainView d = Inr (ShowMainView d)"
| "call gw now CallShowContainers d = Inr (ShowContainers d)"
| "call gw now CallShowDiskUsage d = Inr (ShowDiskUsage d)"
| "call gw now CallShowDockerEvents d = Inr (ShowDockerEvents d)"
| "call gw now CallShowHelp d = Inr (ShowHelp d)"
| "call gw now CallShowImages d = Inr (ShowImages d)"
| "call gw now CallShowInfo d = Inr (fst (ShowInfo gw d))"
| "call gw now CallShowMonitor d = Inr (ShowMonitor d)"
| "call gw now CallShowNetworks d = Inr (ShowNetworks gw d)"
| "call gw now CallShowNodes d = Inr (ShowNodes d)"
| "call gw now CallShowServices d = Inr (ShowServices d)"
| "call gw now (CallShowServiceTasks serviceID) d = Inr (ShowServiceTasks d serviceID)"
| "call gw now (CallShowTasks nodeID) d = Inr (ShowTasks d nodeID)"
| "call gw now CallSortNetworks d = Inr (SortNetworks d)"
| "call gw now JanitorRun d = Inr (d\<lparr>cache := cache_DeleteExpired (cache d) now\<rparr>)"

text \<open>A sequence of calls stops at the first panic.\<close>

fun run :: "(ContainerDaemon \<times> int \<times> command) list \<Rightarrow> Dry \<Rightarrow> panic + Dry" where
  "run [] d = Inr d"
| "run ((gw, now, c) # cs) d =
     (case call gw now c d of
        Inl p \<Rightarrow> Inl p
      | Inr d' \<Rightarrow> run cs d')"

text \<open>A call of Prune during which the daemon's prune succeeds.\<close>

fun successfulPrune :: "ContainerDaemon \<times> int \<times> command \<Rightarrow> bool" where
  "successfulPrune (gw, now, c) = (c = CallPrune \<and> snd (ContainerDaemon.Prune gw) = None)"

section \<open>Example daemons\<close>

text \<open>A daemon that answers every request.\<close>

definition okDaemon :: ContainerDaemon where
  "okDaemon =
     \<lparr>Events = None,
      ImageAt = (\<lambda>p. (Some \<lparr>ImageSummary.ID = ''img1'', Size = 10\<rparr>, None)),
      ContainerDaemon.History =
        (\<lambda>i. ([\<lparr>HistoryResponseItem.ID = i, CreatedBy = ''/bin/sh''\<rparr>], None)),
      ContainerDaemon.InspectImage = (\<lambda>i. (\<lparr>ImageInspect.ID = i, Comment = ''base''\<rparr>, None)),
      NetworkAt =
        (\<lambda>p. (Some \<lparr>NetworkResource.ID = ''net1'', Name = ''bridge'', Driver = ''bridge''\<rparr>,
              None)),
      NetworkInspect =
        (\<lambda>i. (\<lparr>NetworkResource.ID = i, Name = ''bridge'', Driver = ''bridge''\<rparr>, None)),
      ContainerDaemon.Info = (\<lparr>Info.ID = ''host1'', Containers = 2\<rparr>, None),
      ContainerDaemon.Networks =
        ([\<lparr>NetworkResource.ID = ''net1'', Name = ''bridge'', Driver = ''bridge''\<rparr>], None),
      ContainerDaemon.Prune = (Some \<lparr>TotalSpaceReclaimed = 100\<rparr>, None)\<rparr>"

text \<open>
  A daemon whose event subscription works and whose every other request fails, returning
  the zero value of the result type (the nil pointer for a pointer) beside the error.
\<close>

definition failingDaemon :: ContainerDaemon where
  "failingDaemon =
     \<lparr>Events = None,
      ImageAt = (\<lambda>p. (None, Some ''position out of range'')),
      ContainerDaemon.History = (\<lambda>i. ([], Some ''no such image'')),
      ContainerDaemon.InspectImage =
        (\<lambda>i. (\<lparr>ImageInspect.ID = [], Comment = []\<rparr>, Some ''no such image'')),
      NetworkAt = (\<lambda>p. (None, Some ''position out of range'')),
      NetworkInspect =
        (\<lambda>i. (\<lparr>NetworkResource.ID = [], Name = [], Driver = []\<rparr>, Some ''no such network'')),
      ContainerDaemon.Info = (\<lparr>Info.ID = [], Containers = 0\<rparr>, Some ''daemon unreachable''),
      ContainerDaemon.Networks = ([], Some ''daemon unreachable''),
      ContainerDaemon.Prune = (None, Some ''daemon unreachable'')\<rparr>"

text \<open>
  A daemon whose lookups by position fail and still return a record beside the error.
\<close>

definition staleDaemon :: ContainerDaemon where
  "staleDaemon =
     failingDaemon
       \<lparr>ImageAt := (\<lambda>p. (Some \<lparr>ImageSummary.ID = ''img9'', Size = 0\<rparr>, Some ''image is gone'')),
        NetworkAt :=
          (\<lambda>p. (Some \<lparr>NetworkResource.ID = ''net9'', Name = ''old'', Driver = ''bridge''\<rparr>,
                Some ''network is gone''))\<rparr>"

text \<open>Two daemons whose prune succeeds, with different reports.\<close>

definition reportA :: PruneReport where
  "reportA = \<lparr>TotalSpaceReclaimed = 111\<rparr>"

definition reportB :: PruneReport where
  "reportB = \<lparr>TotalSpaceReclaimed = 222\<rparr>"

definition pruneDaemonA :: ContainerDaemon where
  "pruneDaemonA = okDaemon\<lparr>ContainerDaemon.Prune := (Some reportA, None)\<rparr>"

definition pruneDaemonB :: ContainerDaemon where
  "pruneDaemonB = okDaemon\<lparr>ContainerDaemon.Prune := (Some reportB, None)\<rparr>"

text \<open>The controller that newDry builds on a daemon whose event subscription works.\<close>

definition initialDry :: Dry where
  "initialDry = projr (newDry okDaemon)"

text \<open>Sequences of calls used as test inputs.\<close>

definition exampleCalls :: "(ContainerDaemon \<times> int \<times> command) list" where
  "exampleCalls =
     [(okDaemon, Second, CallShowHelp), (okDaemon, 2 * Second, CallShowImages),
      (failingDaemon, 3 * Second, CallShowNetworks), (okDaemon, 4 * Second, CallShowInfo)]"

definition callsWithFailedPrune :: "(ContainerDaemon \<times> int \<times> command) list" where
  "callsWithFailedPrune =
     [(okDaemon, Second, CallShowImages), (failingDaemon, 2 * Second, CallPrune),
      (okDaemon, 40 * Second, JanitorRun)]"

section \<open>Facts about the view mode\<close>

lemma viewMode_SetViewMode: "viewMode (state (SetViewMode d m)) = m"
  by (simp add: SetViewMode_def Let_def)

lemma previousViewMode_SetViewMode:
  "previousViewMode (state (SetViewMode d m)) =
     (if isMainScreen m then m else previousViewMode (state d))"
  by (simp add: SetViewMode_def Let_def)

lemma previousViewMode_foldl_SetViewMode:
  "previousViewMode (state (foldl SetViewMode d ms)) =
     (if filter isMainScreen ms = [] then previousViewMode (state d)
      else last (filter isMainScreen ms))"
  by (induction ms arbitrary: d rule: rev_induct) (simp_all add: previousViewMode_SetViewMode)

lemma state_refreshScreen: "state (refreshScreen d) = state d"
  by (simp add: refreshScreen_def)

lemma state_appmessage: "state (appmessage d m) = state d"
  by (simp add: appmessage_def)

lemma previousViewMode_changeViewMode:
  "previousViewMode (state (changeViewMode d m)) =
     (if isMainScreen m then m else previousViewMode (state d))"
  by (simp add: changeViewMode_def state_refreshScreen previousViewMode_SetViewMode)

lemma viewMode_changeViewMode: "viewMode (state (changeViewMode d m)) = m"
  by (simp add: changeViewMode_def state_refreshScreen viewMode_SetViewMode)

section \<open>Facts about the controller that newDry builds\<close>

lemma newDry_Inr:
  "newDry gw = Inr d \<Longrightarrow>
     state d = \<lparr>previousViewMode = Main, viewMode = Main, sortNetworksMode = SortNetworksByID\<rparr>
     \<and> items (cache d) = Map.empty \<and> output d = []"
  by (auto simp add: newDry_def cache_New_def split: option.splits)

lemma newDry_okDaemon: "newDry okDaemon = Inr initialDry"
  by (simp add: initialDry_def newDry_def okDaemon_def)

lemma initialDry_fields:
  "output initialDry = []"
  "state initialDry =
     \<lparr>previousViewMode = Main, viewMode = Main, sortNetworksMode = SortNetworksByID\<rparr>"
  "items (cache initialDry) = Map.empty"
  using newDry_Inr [OF newDry_okDaemon] by simp_all

section \<open>Facts about the cache\<close>

lemma cache_Add_fresh:
  assumes "\<not> snd (cache_get c t k)" and "0 < ttl"
  shows "cache_Add c t k v ttl =
           (c\<lparr>items := (items c)(k \<mapsto> \<lparr>Object = v, Expiration = t + ttl\<rparr>)\<rparr>, None)"
  using assms by (simp add: cache_Add_def cache_set_def DefaultExpiration_def Let_def)

lemma cache_Add_present:
  assumes "snd (cache_get c t k)"
  shows "cache_Add c t k v ttl = (c, Some (''Item '' @ k @ '' already exists''))"
  using assms by (simp add: cache_Add_def)

lemma cache_get_stored:
  assumes "items c k = Some \<lparr>Object = v, Expiration = e\<rparr>"
  shows "cache_get c t k = (if 0 < e \<and> e < t then (None, False) else (v, True))"
  using assms by (simp add: cache_get_def)

lemma cache_Add_stores:
  assumes "\<not> snd (cache_get c t k)" and "0 < ttl"
  shows "items (fst (cache_Add c t k v ttl)) k = Some \<lparr>Object = v, Expiration = t + ttl\<rparr>"
  using assms by (simp add: cache_Add_fresh)

lemma cache_Add_unexpired:
  assumes "items c k = Some \<lparr>Object = v, Expiration = e\<rparr>" and "t \<le> e"
  shows "cache_Add c t k w ttl = (c, Some (''Item '' @ k @ '' already exists''))"
  using assms by (simp add: cache_Add_present cache_get_stored)

lemma cache_Add_expired:
  assumes "items c k = Some \<lparr>Object = v, Expiration = e\<rparr>" and "0 < e" and "e < t"
    and "0 < ttl"
  shows "cache_Add c t k w ttl =
           (c\<lparr>items := (items c)(k \<mapsto> \<lparr>Object = w, Expiration = t + ttl\<rparr>)\<rparr>, None)"
  using assms by (simp add: cache_Add_fresh cache_get_stored)

lemma cache_DeleteExpired_empty:
  "items c = Map.empty \<Longrightarrow> items (cache_DeleteExpired c now) = Map.empty"
  by (simp add: cache_DeleteExpired_def)

lemma cache_refreshScreen: "cache (refreshScreen d) = cache d"
  by (simp add: refreshScreen_def)

lemma cache_appmessage: "cache (appmessage d m) = cache d"
  by (simp add: appmessage_def)

lemma cache_changeViewMode: "cache (changeViewMode d m) = cache d"
  by (simp add: changeViewMode_def refreshScreen_def SetViewMode_def Let_def)

lemma thirty_seconds_positive: "0 < 30 * Second"
  by (simp add: Second_def)

lemma Prune_stores:
  assumes "ContainerDaemon.Prune gw = (pr, None)"
    and "\<not> snd (cache_Get (cache d) t pruneReport)"
  shows "items (cache (Prune gw t d)) pruneReport =
           Some \<lparr>Object = pr, Expiration = t + 30 * Second\<rparr>"
proof -
  from assms(2) have "\<not> snd (cache_get (cache d) t pruneReport)"
    by (simp add: cache_Get_def)
  from cache_Add_fresh [OF this thirty_seconds_positive] assms(1)
  show ?thesis by (simp add: Prune_def)
qed

lemma PruneReport_empty: "items (cache d) = Map.empty \<Longrightarrow> PruneReport now d = None"
  by (simp add: PruneReport_def cache_Get_def cache_get_def)

section \<open>Facts about sequences of calls\<close>

lemma call_previousViewMode:
  assumes "call gw now c d = Inr d'" and "isMainScreen (previousViewMode (state d))"
  shows "isMainScreen (previousViewMode (state d'))"
  using assms
  by (cases c)
     (auto simp add: previousViewMode_SetViewMode previousViewMode_changeViewMode
        state_appmessage state_refreshScreen
        HistoryAt_def History_def InspectImageAt_def InspectImage_def InspectNetworkAt_def
        InspectNetwork_def Prune_def ShowMainView_def ShowContainers_def ShowDiskUsage_def
        ShowDockerEvents_def ShowHelp_def ShowImages_def ShowInfo_def ShowMonitor_def
        ShowNetworks_def ShowNodes_def ShowServices_def ShowServiceTasks_def ShowTasks_def
        SortNetworks_def errorMessage_def Let_def
        split: prod.splits option.splits SortMode.splits if_splits)

lemma run_previousViewMode:
  "run cs d = Inr d' \<Longrightarrow> isMainScreen (previousViewMode (state d)) \<Longrightarrow>
     isMainScreen (previousViewMode (state d'))"
proof (induction cs arbitrary: d)
  case Nil
  then show ?case by simp
next
  case (Cons x cs)
  obtain gw now c where x: "x = (gw, now, c)" by (cases x)
  from Cons.prems(1) obtain d1 where c: "call gw now c d = Inr d1" and r: "run cs d1 = Inr d'"
    by (auto simp add: x split: sum.splits)
  from call_previousViewMode [OF c Cons.prems(2)] Cons.IH [OF r] show ?case by simp
qed

lemma call_cache_empty:
  assumes "call gw now c d = Inr d'" and "\<not> successfulPrune (gw, now, c)"
    and "items (cache d) = Map.empty"
  shows "items (cache d') = Map.empty"
  using assms
  by (cases c)
     (auto simp add: cache_changeViewMode cache_appmessage cache_refreshScreen
        cache_DeleteExpired_empty
        SetViewMode_def HistoryAt_def History_def InspectImageAt_def InspectImage_def
        InspectNetworkAt_def InspectNetwork_def Prune_def ShowMainView_def ShowContainers_def
        ShowDiskUsage_def ShowDockerEvents_def ShowHelp_def ShowImages_def ShowInfo_def
        ShowMonitor_def ShowNetworks_def ShowNodes_def ShowServices_def ShowServiceTasks_def
        ShowTasks_def SortNetworks_def errorMessage_def Let_def
        split: prod.splits option.splits)

lemma run_cache_empty:
  "run cs d = Inr d' \<Longrightarrow> \<not> list_ex successfulPrune cs \<Longrightarrow> items (cache d) = Map.empty \<Longrightarrow>
     items (cache d') = Map.empty"
proof (induction cs arbitrary: d)
  case Nil
  then show ?case by simp
next
  case (Cons x cs)
  obtain gw now c where x: "x = (gw, now, c)" by (cases x)
  from Cons.prems(1) obtain d1 where c: "call gw now c d = Inr d1" and r: "run cs d1 = Inr d'"
    by (auto simp add: x split: sum.splits)
  from Cons.prems(2) have n: "\<not> successfulPrune (gw, now, c)"
    and ns: "\<not> list_ex successfulPrune cs"
    by (simp_all add: x)
  from call_cache_empty [OF c n Cons.prems(3)] Cons.IH [OF r ns] show ?case by simp
qed

lemma run_exampleCalls:
  "run exampleCalls initialDry = Inr (projr (run exampleCalls initialDry))"
  by (simp add: exampleCalls_def)

lemma exampleCalls_result:
  "Dry_viewMode (projr (run exampleCalls initialDry)) = InfoMode
   \<and> previousViewMode (state (projr (run exampleCalls initialDry))) = Images
   \<and> Dry_viewMode (ShowMainView (projr (run exampleCalls initialDry))) = Images"
  by (simp add: exampleCalls_def ShowMainView_def ShowHelp_def ShowImages_def ShowNetworks_def
        ShowInfo_def Dry_viewMode_def viewMode_changeViewMode previousViewMode_changeViewMode
        state_appmessage isMainScreen_def failingDaemon_def okDaemon_def)

lemma run_callsWithFailedPrune:
  "run callsWithFailedPrune initialDry = Inr (projr (run callsWithFailedPrune initialDry))"
  by (simp add: callsWithFailedPrune_def)

lemma no_successfulPrune_callsWithFailedPrune:
  "\<not> list_ex successfulPrune callsWithFailedPrune"
  by (simp add: callsWithFailedPrune_def failingDaemon_def)

section \<open>The claims\<close>

subsection \<open>C1: sequences of SetViewMode\<close>

text \<open>
  C1: take the controller that newDry returns and call SetViewMode with the arguments
  \<open>ms\<close>, one after the other. If one more call with argument \<open>m\<close> follows, the view
  mode read afterwards (method viewMode) is \<open>m\<close>, the argument of the last call. After
  the calls \<open>ms\<close> the stored previous main view mode is the argument of the most recent
  call whose argument is a main screen, and it is Main, the initial value, when no call had
  a main screen as its argument.
\<close>

theorem SetViewMode_sequence:
  assumes "newDry gw = Inr d0"
  shows "Dry_viewMode (foldl SetViewMode d0 (ms @ [m])) = m
         \<and> previousViewMode (state (foldl SetViewMode d0 ms)) =
             (if filter isMainScreen ms = [] then Main else last (filter isMainScreen ms))"
  using newDry_Inr [OF assms]
  by (simp add: Dry_viewMode_def viewMode_SetViewMode previousViewMode_foldl_SetViewMode)

theorem SetViewMode_sequence_witness:
  "newDry okDaemon = Inr initialDry
   \<and> Dry_viewMode (foldl SetViewMode initialDry ([Images, HelpMode, InfoMode] @ [DiskUsage]))
       = DiskUsage
   \<and> previousViewMode (state (foldl SetViewMode initialDry [Images, HelpMode, InfoMode]))
       = Images
   \<and> previousViewMode (state (foldl SetViewMode initialDry [HelpMode, InfoMode])) = Main"
  using SetViewMode_sequence [of okDaemon initialDry "[Images, HelpMode, InfoMode]" DiskUsage]
        SetViewMode_sequence [of okDaemon initialDry "[HelpMode, InfoMode]" DiskUsage]
  by (simp add: newDry_okDaemon isMainScreen_def)

subsection \<open>C2: a second store before the entry expires\<close>

text \<open>
  C2, amended: the controller stores with the cache's Add. For every key \<open>k\<close>, values
  \<open>v1\<close> and \<open>v2\<close> and positive \<open>ttl\<close>: when the key has no unexpired entry, a first
  store of \<open>v1\<close> at time \<open>t1\<close> leaves the entry \<open>v1\<close> with expiration \<open>t1 + ttl\<close>. A
  second store of \<open>v2\<close> under the same key at a time \<open>t2\<close> before that entry expires
  (\<open>t2 \<le> t1 + ttl\<close>) fails with "already exists" and leaves the cache as it is: the value
  stays \<open>v1\<close> and the expiration stays \<open>t1 + ttl\<close>. Only a store after the entry expired
  replaces the value, and the new entry expires at \<open>t2 + ttl\<close>. In particular, when Prune
  succeeds at \<open>t1\<close> with no unexpired report in the cache and succeeds again at
  \<open>t2 \<le> t1 + 30 s\<close>, the second call leaves the controller as the first call left it:
  the cached report is the first report and its expiration is \<open>t1 + 30 s\<close>.
\<close>

theorem second_store_before_expiry:
  "(\<not> snd (cache_get c t1 k) \<and> 0 < ttl \<longrightarrow>
      (let c1 = fst (cache_Add c t1 k v1 ttl) in
         items c1 k = Some \<lparr>Object = v1, Expiration = t1 + ttl\<rparr>
         \<and> (t2 \<le> t1 + ttl \<longrightarrow>
              cache_Add c1 t2 k v2 ttl = (c1, Some (''Item '' @ k @ '' already exists'')))
         \<and> (0 < t1 + ttl \<and> t1 + ttl < t2 \<longrightarrow>
              cache_Add c1 t2 k v2 ttl =
                (c1\<lparr>items := (items c1)(k \<mapsto> \<lparr>Object = v2, Expiration = t2 + ttl\<rparr>)\<rparr>,
                 None))))
   \<and> (ContainerDaemon.Prune gw1 = (pr1, None) \<and> ContainerDaemon.Prune gw2 = (pr2, None)
        \<and> \<not> snd (cache_Get (cache d) t1 pruneReport) \<and> t2 \<le> t1 + 30 * Second \<longrightarrow>
      items (cache (Prune gw1 t1 d)) pruneReport =
        Some \<lparr>Object = pr1, Expiration = t1 + 30 * Second\<rparr>
      \<and> Prune gw2 t2 (Prune gw1 t1 d) = Prune gw1 t1 d)"
proof (intro conjI impI)
  assume a: "\<not> snd (cache_get c t1 k) \<and> 0 < ttl"
  then have s: "items (fst (cache_Add c t1 k v1 ttl)) k =
      Some \<lparr>Object = v1, Expiration = t1 + ttl\<rparr>"
    by (simp add: cache_Add_stores)
  from a have p: "0 < ttl" by simp
  show "let c1 = fst (cache_Add c t1 k v1 ttl) in
         items c1 k = Some \<lparr>Object = v1, Expiration = t1 + ttl\<rparr>
         \<and> (t2 \<le> t1 + ttl \<longrightarrow>
              cache_Add c1 t2 k v2 ttl = (c1, Some (''Item '' @ k @ '' already exists'')))
         \<and> (0 < t1 + ttl \<and> t1 + ttl < t2 \<longrightarrow>
              cache_Add c1 t2 k v2 ttl =
                (c1\<lparr>items := (items c1)(k \<mapsto> \<lparr>Object = v2, Expiration = t2 + ttl\<rparr>)\<rparr>,
                 None))"
    unfolding Let_def
    using s cache_Add_unexpired [OF s] cache_Add_expired [OF s _ _ p] by blast
next
  assume a: "ContainerDaemon.Prune gw1 = (pr1, None) \<and> ContainerDaemon.Prune gw2 = (pr2, None)
        \<and> \<not> snd (cache_Get (cache d) t1 pruneReport) \<and> t2 \<le> t1 + 30 * Second"
  then show i: "items (cache (Prune gw1 t1 d)) pruneReport =
      Some \<lparr>Object = pr1, Expiration = t1 + 30 * Second\<rparr>"
    by (simp add: Prune_stores)
  from a have "t2 \<le> t1 + 30 * Second" by simp
  from cache_Add_unexpired [OF i this]
  have "cache_Add (cache (Prune gw1 t1 d)) t2 pruneReport pr2 (30 * Second) =
      (cache (Prune gw1 t1 d), Some (''Item '' @ pruneReport @ '' already exists''))" .
  with a show "Prune gw2 t2 (Prune gw1 t1 d) = Prune gw1 t1 d"
    by (simp add: Prune_def [of gw2])
qed

theorem second_store_before_expiry_witness:
  "(let c1 = fst (cache_Add (cache_New (5 * Minute) (30 * Second)) Second ''k'' (Some reportA)
                   (30 * Second)) in
      items c1 ''k'' = Some \<lparr>Object = Some reportA, Expiration = Second + 30 * Second\<rparr>
      \<and> cache_Add c1 (20 * Second) ''k'' (Some reportB) (30 * Second) =
          (c1, Some (''Item '' @ ''k'' @ '' already exists'')))
   \<and> (let c1 = fst (cache_Add (cache_New (5 * Minute) (30 * Second)) Second ''k'' (Some reportA)
                   (30 * Second)) in
      cache_Add c1 (40 * Second) ''k'' (Some reportB) (30 * Second) =
        (c1\<lparr>items := (items c1)(''k'' \<mapsto>
               \<lparr>Object = Some reportB, Expiration = 40 * Second + 30 * Second\<rparr>)\<rparr>, None))
   \<and> items (cache (Prune pruneDaemonA Second initialDry)) pruneReport =
        Some \<lparr>Object = Some reportA, Expiration = Second + 30 * Second\<rparr>
   \<and> Prune pruneDaemonB (20 * Second) (Prune pruneDaemonA Second initialDry) =
        Prune pruneDaemonA Second initialDry"
  using second_store_before_expiry [where c = "cache_New (5 * Minute) (30 * Second)"
          and ?t1.0 = Second and k = "''k''" and ttl = "30 * Second" and ?v1.0 = "Some reportA"
          and ?v2.0 = "Some reportB" and ?t2.0 = "20 * Second" and ?gw1.0 = pruneDaemonA
          and ?gw2.0 = pruneDaemonB and ?pr1.0 = "Some reportA" and ?pr2.0 = "Some reportB"
          and d = initialDry]
        second_store_before_expiry [where c = "cache_New (5 * Minute) (30 * Second)"
          and ?t1.0 = Second and k = "''k''" and ttl = "30 * Second" and ?v1.0 = "Some reportA"
          and ?v2.0 = "Some reportB" and ?t2.0 = "40 * Second" and ?gw1.0 = pruneDaemonA
          and ?gw2.0 = pruneDaemonB and ?pr1.0 = "Some reportA" and ?pr2.0 = "Some reportB"
          and d = initialDry]
  by (simp add: Let_def cache_get_def cache_Get_def cache_New_def Second_def
        pruneDaemonA_def pruneDaemonB_def okDaemon_def initialDry_fields)

text \<open>
  C2 as stated fails: Prune succeeds at second 1 with report A and again at second 20, within
  the 30 seconds, with a different report B. The cache still holds report A with the
  expiration of the first call (second 31); PruneReport returns A at second 21 and nothing
  at second 32, where an entry stored by the second call would still be alive.
\<close>

theorem second_Prune_keeps_first_report:
  "ContainerDaemon.Prune pruneDaemonA = (Some reportA, None)
   \<and> ContainerDaemon.Prune pruneDaemonB = (Some reportB, None)
   \<and> reportA \<noteq> reportB
   \<and> items (cache (Prune pruneDaemonB (20 * Second) (Prune pruneDaemonA Second initialDry)))
        pruneReport = Some \<lparr>Object = Some reportA, Expiration = 31 * Second\<rparr>
   \<and> PruneReport (21 * Second)
        (Prune pruneDaemonB (20 * Second) (Prune pruneDaemonA Second initialDry)) = Some reportA
   \<and> PruneReport (32 * Second)
        (Prune pruneDaemonB (20 * Second) (Prune pruneDaemonA Second initialDry)) = None"
  by (simp add: PruneReport_def Prune_def cache_Get_def cache_get_def cache_Add_def
        cache_set_def DefaultExpiration_def Let_def Second_def pruneReport_def
        pruneDaemonA_def pruneDaemonB_def okDaemon_def reportA_def reportB_def
        initialDry_fields)

subsection \<open>C3: fetch-then-show handlers when the daemon fails\<close>

text \<open>
  C3: when the daemon's call fails, each of History, InspectImage, InspectNetwork and
  ShowNetworks returns the controller it was given with one formatted message appended to
  the output and nothing else changed, so the view mode and the previous main view mode
  are the ones before the call. The handlers have no error result: the failure does not
  reach the caller.
\<close>

theorem fetch_then_show_failure:
  "(ContainerDaemon.History gw i = (h, Some e1) \<longrightarrow>
      History gw d i =
        d\<lparr>output := output d @ [''<red>Error getting history of image </><white>'' @ i @ '': ''
                                 @ e1 @ ''</>'']\<rparr>)
   \<and> (ContainerDaemon.InspectImage gw i = (img, Some e2) \<longrightarrow>
      InspectImage gw d i =
        d\<lparr>output := output d @ [''<red>Error inspecting image container </><white>'' @ i
                                 @ ''. '' @ e2 @ ''</>'']\<rparr>)
   \<and> (NetworkInspect gw i = (n, Some e3) \<longrightarrow>
      InspectNetwork gw d i =
        d\<lparr>output := output d @ [''<red>Error inspecting network container </><white>''
                                 @ NetworkResource.ID n @ ''. '' @ e3 @ ''</>'']\<rparr>)
   \<and> (ContainerDaemon.Networks gw = (ns, Some e4) \<longrightarrow>
      ShowNetworks gw d =
        d\<lparr>output := output d @ [''Could not retrieve network list: '' @ e4 @ '' '']\<rparr>)"
  by (simp add: History_def InspectImage_def InspectNetwork_def ShowNetworks_def
        errorMessage_def appmessage_def)

theorem fetch_then_show_failure_witness:
  "History failingDaemon initialDry ''img1'' =
     initialDry\<lparr>output :=
       [''<red>Error getting history of image </><white>img1: no such image</>'']\<rparr>
   \<and> InspectImage failingDaemon initialDry ''img1'' =
     initialDry\<lparr>output :=
       [''<red>Error inspecting image container </><white>img1. no such image</>'']\<rparr>
   \<and> InspectNetwork failingDaemon initialDry ''img1'' =
     initialDry\<lparr>output :=
       [''<red>Error inspecting network container </><white>. no such network</>'']\<rparr>
   \<and> ShowNetworks failingDaemon initialDry =
     initialDry\<lparr>output := [''Could not retrieve network list: daemon unreachable '']\<rparr>"
  using fetch_then_show_failure [where gw = failingDaemon and i = "''img1''" and h = "[]"
          and ?e1.0 = "''no such image''" and d = initialDry
          and img = "\<lparr>ImageInspect.ID = [], Comment = []\<rparr>" and ?e2.0 = "''no such image''"
          and n = "\<lparr>NetworkResource.ID = [], Name = [], Driver = []\<rparr>"
          and ?e3.0 = "''no such network''" and ns = "[]" and ?e4.0 = "''daemon unreachable''"]
  by (simp add: failingDaemon_def initialDry_fields)

subsection \<open>C4: ShowMainView lands on a main screen\<close>

text \<open>
  C4: start from the controller that newDry returns and make any finite sequence of calls
  of the controller's methods, with any daemon answers, that runs to its end. The stored
  previous main view mode then holds a main screen, and ShowMainView sets the view mode to a
  main screen. The empty sequence is included: newDry sets both view modes to Main.
\<close>

theorem ShowMainView_lands_on_main_screen:
  assumes "newDry gw0 = Inr d0" and "run cs d0 = Inr d"
  shows "isMainScreen (previousViewMode (state d))
         \<and> isMainScreen (Dry_viewMode (ShowMainView d))"
proof -
  from newDry_Inr [OF assms(1)] have "isMainScreen (previousViewMode (state d0))"
    by (simp add: isMainScreen_def)
  from run_previousViewMode [OF assms(2) this]
  show ?thesis by (simp add: Dry_viewMode_def ShowMainView_def viewMode_changeViewMode)
qed

theorem ShowMainView_lands_on_main_screen_witness:
  "newDry okDaemon = Inr initialDry
   \<and> run exampleCalls initialDry = Inr (projr (run exampleCalls initialDry))
   \<and> Dry_viewMode (projr (run exampleCalls initialDry)) = InfoMode
   \<and> previousViewMode (state (projr (run exampleCalls initialDry))) = Images
   \<and> Dry_viewMode (ShowMainView (projr (run exampleCalls initialDry))) = Images
   \<and> isMainScreen (Dry_viewMode (ShowMainView (projr (run exampleCalls initialDry))))
   \<and> isMainScreen (Dry_viewMode (ShowMainView initialDry))"
  using ShowMainView_lands_on_main_screen [OF newDry_okDaemon run_exampleCalls]
        ShowMainView_lands_on_main_screen [OF newDry_okDaemon, of "[]" initialDry]
        newDry_okDaemon run_exampleCalls exampleCalls_result
  by simp

subsection \<open>C5: rotation of the sort mode\<close>

text \<open>
  C5: one call of SortNetworks moves the sort mode from by-ID to by-name, from by-name to
  by-driver and from by-driver to by-ID, and leaves every other value of the sort mode as
  it is; three calls in a row bring the sort mode back to the value it started from.
  SortNetworks is a total function of the controller.
\<close>

theorem SortNetworks_rotation:
  "sortNetworksMode (state (SortNetworks d)) =
     (case sortNetworksMode (state d) of
        SortNetworksByID \<Rightarrow> SortNetworksByName
      | SortNetworksByName \<Rightarrow> SortNetworksByDriver
      | SortNetworksByDriver \<Rightarrow> SortNetworksByID
      | OtherSortMode n \<Rightarrow> OtherSortMode n)
   \<and> sortNetworksMode (state (SortNetworks (SortNetworks (SortNetworks d)))) =
       sortNetworksMode (state d)"
  by (simp add: SortNetworks_def refreshScreen_def Let_def split: SortMode.splits)

subsection \<open>C6: a successful InspectNetwork\<close>

text \<open>
  C6: when the daemon's NetworkInspect for the id "net1" succeeds with the record \<open>r\<close>,
  InspectNetwork "net1" sets the view mode to InspectNetworkMode and the inspected
  network of the controller is \<open>r\<close> afterwards.
\<close>

theorem InspectNetwork_success:
  assumes "NetworkInspect gw ''net1'' = (r, None)"
  shows "Dry_viewMode (InspectNetwork gw d ''net1'') = InspectNetworkMode
         \<and> inspectedNetwork (InspectNetwork gw d ''net1'') = r"
  using assms
  by (simp add: InspectNetwork_def changeViewMode_def refreshScreen_def Dry_viewMode_def
        viewMode_SetViewMode)

theorem InspectNetwork_success_witness:
  "Dry_viewMode (InspectNetwork okDaemon initialDry ''net1'') = InspectNetworkMode
   \<and> inspectedNetwork (InspectNetwork okDaemon initialDry ''net1'') =
       \<lparr>NetworkResource.ID = ''net1'', Name = ''bridge'', Driver = ''bridge''\<rparr>"
  using InspectNetwork_success [of okDaemon
          "\<lparr>NetworkResource.ID = ''net1'', Name = ''bridge'', Driver = ''bridge''\<rparr>" initialDry]
  by (simp add: okDaemon_def)

subsection \<open>C7: PruneReport after Prune\<close>

text \<open>
  C7, amended: when Prune succeeds at time \<open>t1\<close> and the cache holds no unexpired report
  at that moment, PruneReport called at any time \<open>t2\<close> up to 30 seconds after \<open>t1\<close>
  returns the report of that Prune. When no successful Prune came before (the controller
  is the one newDry returns, followed by any sequence of calls none of which is a Prune
  that succeeded), PruneReport returns nil at any time.
\<close>

theorem PruneReport_after_Prune:
  "(ContainerDaemon.Prune gw = (pr, None) \<and> \<not> snd (cache_Get (cache d) t1 pruneReport)
      \<and> t2 \<le> t1 + 30 * Second \<longrightarrow>
    PruneReport t2 (Prune gw t1 d) = pr)
   \<and> (newDry gw0 = Inr d0 \<and> run cs d0 = Inr d' \<and> \<not> list_ex successfulPrune cs \<longrightarrow>
    PruneReport now d' = None)"
proof (intro conjI impI)
  assume a: "ContainerDaemon.Prune gw = (pr, None)
      \<and> \<not> snd (cache_Get (cache d) t1 pruneReport) \<and> t2 \<le> t1 + 30 * Second"
  then have "items (cache (Prune gw t1 d)) pruneReport =
      Some \<lparr>Object = pr, Expiration = t1 + 30 * Second\<rparr>"
    by (simp add: Prune_stores)
  from cache_get_stored [OF this] a show "PruneReport t2 (Prune gw t1 d) = pr"
    by (simp add: PruneReport_def cache_Get_def)
next
  assume a: "newDry gw0 = Inr d0 \<and> run cs d0 = Inr d' \<and> \<not> list_ex successfulPrune cs"
  then have "items (cache d0) = Map.empty" using newDry_Inr by blast
  with a have "items (cache d') = Map.empty" using run_cache_empty by blast
  then show "PruneReport now d' = None" by (rule PruneReport_empty)
qed

theorem PruneReport_after_Prune_witness:
  "PruneReport (35 * Second) (Prune pruneDaemonA (5 * Second) initialDry) = Some reportA
   \<and> run callsWithFailedPrune initialDry = Inr (projr (run callsWithFailedPrune initialDry))
   \<and> \<not> list_ex successfulPrune callsWithFailedPrune
   \<and> PruneReport (41 * Second) (projr (run callsWithFailedPrune initialDry)) = None
   \<and> PruneReport 0 initialDry = None"
  using PruneReport_after_Prune [where gw = pruneDaemonA and pr = "Some reportA"
          and d = initialDry and ?t1.0 = "5 * Second" and ?t2.0 = "35 * Second"
          and ?gw0.0 = okDaemon and ?d0.0 = initialDry and cs = callsWithFailedPrune
          and d' = "projr (run callsWithFailedPrune initialDry)" and now = "41 * Second"]
        PruneReport_after_Prune [where gw = pruneDaemonA and pr = "Some reportA"
          and d = initialDry and ?t1.0 = "5 * Second" and ?t2.0 = "35 * Second"
          and ?gw0.0 = okDaemon and ?d0.0 = initialDry and cs = "[]"
          and d' = initialDry and now = 0]
        newDry_okDaemon run_callsWithFailedPrune no_successfulPrune_callsWithFailedPrune
  by (simp add: pruneDaemonA_def cache_Get_def cache_get_def initialDry_fields Second_def)

text \<open>
  C7 as stated fails: Prune succeeds at second 5 with report A and at second 10 with
  report B. PruneReport at second 12, after the second successful Prune and within its 30
  seconds, returns report A and not the report B which that Prune produced.
\<close>

theorem PruneReport_after_second_Prune:
  "ContainerDaemon.Prune pruneDaemonB = (Some reportB, None)
   \<and> PruneReport (12 * Second)
        (Prune pruneDaemonB (10 * Second) (Prune pruneDaemonA (5 * Second) initialDry))
       = Some reportA
   \<and> Some reportA \<noteq> Some reportB"
  by (simp add: PruneReport_def Prune_def cache_Get_def cache_get_def cache_Add_def
        cache_set_def DefaultExpiration_def Let_def Second_def pruneReport_def
        pruneDaemonA_def pruneDaemonB_def okDaemon_def reportA_def reportB_def
        initialDry_fields)

subsection \<open>C8: ShowInfo\<close>

text \<open>
  C8: when the daemon's Info fails with error \<open>e\<close>, ShowInfo returns \<open>e\<close> and the
  controller as it was: no message is appended to the output, and the view mode and the
  stored host info are unchanged. When Info succeeds with \<open>i\<close>, ShowInfo returns no
  error, the view mode is InfoMode and the stored host info is \<open>i\<close>.
\<close>

theorem ShowInfo_result:
  "(ContainerDaemon.Info gw = (i, Some e) \<longrightarrow> ShowInfo gw d = (d, Some e))
   \<and> (ContainerDaemon.Info gw = (i, None) \<longrightarrow>
        snd (ShowInfo gw d) = None
        \<and> Dry_viewMode (fst (ShowInfo gw d)) = InfoMode
        \<and> info (fst (ShowInfo gw d)) = i)"
  by (simp add: ShowInfo_def changeViewMode_def refreshScreen_def Dry_viewMode_def
        viewMode_SetViewMode)

theorem ShowInfo_result_witness:
  "ShowInfo failingDaemon initialDry = (initialDry, Some ''daemon unreachable'')
   \<and> snd (ShowInfo okDaemon initialDry) = None
   \<and> Dry_viewMode (fst (ShowInfo okDaemon initialDry)) = InfoMode
   \<and> info (fst (ShowInfo okDaemon initialDry)) = \<lparr>Info.ID = ''host1'', Containers = 2\<rparr>"
  using ShowInfo_result [of failingDaemon "\<lparr>Info.ID = [], Containers = 0\<rparr>"
          "''daemon unreachable''" initialDry]
        ShowInfo_result [of okDaemon "\<lparr>Info.ID = ''host1'', Containers = 2\<rparr>" "[]" initialDry]
  by (simp add: failingDaemon_def okDaemon_def)

subsection \<open>C9: lookups by position that fail\<close>

text \<open>
  C9: the daemon's ImageAt fails at position 7 and returns the nil pointer beside its
  error. HistoryAt 7 appends an error message to the output and leaves the rest of the
  controller as it was, whereas InspectImageAt 7 dereferences the nil pointer in its error
  branch and panics: no message is emitted.
\<close>

theorem InspectImageAt_nil_record_panics:
  "ImageAt failingDaemon 7 = (None, Some ''position out of range'')
   \<and> InspectImageAt failingDaemon initialDry 7 = Inl NilPointerDereference
   \<and> HistoryAt failingDaemon initialDry 7 =
       Inr (initialDry\<lparr>output :=
              [''<red>Error getting history of image </><white>: position out of range</>'']\<rparr>)"
  by (simp add: InspectImageAt_def HistoryAt_def failingDaemon_def appmessage_def
        initialDry_fields)

subsection \<open>C10: the record read in the error branches\<close>

text \<open>
  C10: when the lookup by position fails, InspectImageAt and InspectNetworkAt read the ID
  of the record that came with the error. The call panics exactly when that record is the
  nil pointer; with a record present it appends the error message built from the record's
  ID to the output.
\<close>

theorem position_lookup_error_branch:
  "(ImageAt gw p = (r, Some e) \<longrightarrow>
      InspectImageAt gw d p =
        (case r of
           None \<Rightarrow> Inl NilPointerDereference
         | Some img \<Rightarrow> Inr (errorMessage d (ImageSummary.ID img) ''inspecting image'' e)))
   \<and> (NetworkAt gw p = (r', Some e') \<longrightarrow>
      InspectNetworkAt gw d p =
        (case r' of
           None \<Rightarrow> Inl NilPointerDereference
         | Some n \<Rightarrow> Inr (errorMessage d (NetworkResource.ID n) ''inspecting network'' e')))"
  by (simp add: InspectImageAt_def InspectNetworkAt_def)

theorem position_lookup_error_branch_witness:
  "InspectImageAt failingDaemon initialDry 7 = Inl NilPointerDereference
   \<and> InspectNetworkAt failingDaemon initialDry 7 = Inl NilPointerDereference
   \<and> InspectImageAt staleDaemon initialDry 7 =
       Inr (errorMessage initialDry ''img9'' ''inspecting image'' ''image is gone'')
   \<and> InspectNetworkAt staleDaemon initialDry 7 =
       Inr (errorMessage initialDry ''net9'' ''inspecting network'' ''network is gone'')"
  using position_lookup_error_branch [where gw = failingDaemon and p = 7 and r = None
          and e = "''position out of range''" and r' = None and e' = "''position out of range''"
          and d = initialDry]
        position_lookup_error_branch [where gw = staleDaemon and p = 7
          and r = "Some \<lparr>ImageSummary.ID = ''img9'', Size = 0\<rparr>" and e = "''image is gone''"
          and r' = "Some \<lparr>NetworkResource.ID = ''net9'', Name = ''old'', Driver = ''bridge''\<rparr>"
          and e' = "''network is gone''" and d = initialDry]
  by (simp add: failingDaemon_def staleDaemon_def)

end
